theory Spec2Isabelle
  imports Complex_Main "HOL-Library.Sublist"
begin

section \<open>JavaScript values used by the dataset and statistics routes\<close>

subsection \<open>Numbers\<close>

text \<open>
  A JavaScript Number is modelled with its three special values written out and the
  finite values idealised as reals: rounding to the nearest double, overflow of a finite
  result to an infinity and the sign of zero are not represented. Every operation below
  follows IEEE 754 on the special values, which is what the routes' results depend on
  (\<open>0 / 0\<close>, \<open>Math.max()\<close> of nothing, comparisons with \<open>NaN\<close>).
\<close>

datatype jsnum = Fin real | PosInf | NegInf | NaN

fun js_neg :: "jsnum \<Rightarrow> jsnum" where
  "js_neg (Fin a) = Fin (- a)"
| "js_neg PosInf = NegInf"
| "js_neg NegInf = PosInf"
| "js_neg NaN = NaN"

fun js_add :: "jsnum \<Rightarrow> jsnum \<Rightarrow> jsnum" where
  "js_add NaN _ = NaN"
| "js_add _ NaN = NaN"
| "js_add (Fin a) (Fin b) = Fin (a + b)"
| "js_add PosInf NegInf = NaN"
| "js_add NegInf PosInf = NaN"
| "js_add PosInf _ = PosInf"
| "js_add _ PosInf = PosInf"
| "js_add NegInf _ = NegInf"
| "js_add _ NegInf = NegInf"

definition js_sub :: "jsnum \<Rightarrow> jsnum \<Rightarrow> jsnum" where
  "js_sub a b = js_add a (js_neg b)"

text \<open>The sign of a number: \<open>-1\<close>, \<open>0\<close> or \<open>1\<close>; only used on numbers other than \<open>NaN\<close>.\<close>

fun js_sign :: "jsnum \<Rightarrow> int" where
  "js_sign (Fin a) = (if a < 0 then - 1 else if a = 0 then 0 else 1)"
| "js_sign PosInf = 1"
| "js_sign NegInf = - 1"
| "js_sign NaN = 0"

fun js_mul :: "jsnum \<Rightarrow> jsnum \<Rightarrow> jsnum" where
  "js_mul NaN _ = NaN"
| "js_mul _ NaN = NaN"
| "js_mul (Fin a) (Fin b) = Fin (a * b)"
| "js_mul a b =
     (if js_sign a * js_sign b = 0 then NaN
      else if js_sign a * js_sign b < 0 then NegInf else PosInf)"

fun js_div :: "jsnum \<Rightarrow> jsnum \<Rightarrow> jsnum" where
  "js_div NaN _ = NaN"
| "js_div _ NaN = NaN"
| "js_div (Fin a) (Fin b) =
     (if b = 0 then (if a = 0 then NaN else if a < 0 then NegInf else PosInf)
      else Fin (a / b))"
| "js_div (Fin a) _ = Fin 0"
| "js_div a (Fin b) = (if js_sign a * (if b < 0 then - 1 else 1) < 0 then NegInf else PosInf)"
| "js_div _ _ = NaN"

text \<open>The relational operators; every comparison with \<open>NaN\<close> is false.\<close>

fun js_lt :: "jsnum \<Rightarrow> jsnum \<Rightarrow> bool" where
  "js_lt NaN _ = False"
| "js_lt _ NaN = False"
| "js_lt (Fin a) (Fin b) = (a < b)"
| "js_lt PosInf _ = False"
| "js_lt _ PosInf = True"
| "js_lt NegInf NegInf = False"
| "js_lt NegInf _ = True"
| "js_lt _ NegInf = False"

definition js_gt :: "jsnum \<Rightarrow> jsnum \<Rightarrow> bool" where
  "js_gt a b = js_lt b a"

definition js_le :: "jsnum \<Rightarrow> jsnum \<Rightarrow> bool" where
  "js_le a b = (a \<noteq> NaN \<and> b \<noteq> NaN \<and> \<not> js_lt b a)"

definition js_ge :: "jsnum \<Rightarrow> jsnum \<Rightarrow> bool" where
  "js_ge a b = js_le b a"

text \<open>Strict equality \<open>===\<close> on numbers: \<open>NaN\<close> is not equal to itself.\<close>

definition js_eq :: "jsnum \<Rightarrow> jsnum \<Rightarrow> bool" where
  "js_eq a b = (a \<noteq> NaN \<and> b \<noteq> NaN \<and> a = b)"

text \<open>Truthiness of a number, and the idiom \<open>x || 0\<close>.\<close>

definition num_truthy :: "jsnum \<Rightarrow> bool" where
  "num_truthy a = (a \<noteq> NaN \<and> a \<noteq> Fin 0)"

definition or_zero :: "jsnum \<Rightarrow> jsnum" where
  "or_zero a = (if num_truthy a then a else Fin 0)"

subsection \<open>Strings\<close>

text \<open>
  Strings are lists of characters and the string methods are modelled on ASCII:
  \<open>toLowerCase\<close> maps \<open>A\<close>..\<open>Z\<close>, and the white space of \<open>trim\<close>, of the regular
  expression class \<open>\s\<close> and of \<open>parseFloat\<close> is TAB, LF, VT, FF, CR and the space.
\<close>

definition lower_char :: "char \<Rightarrow> char" where
  "lower_char c =
     (case map_of (zip ''ABCDEFGHIJKLMNOPQRSTUVWXYZ'' ''abcdefghijklmnopqrstuvwxyz'') c of
        Some d \<Rightarrow> d
      | None \<Rightarrow> c)"

definition toLowerCase :: "string \<Rightarrow> string" where
  "toLowerCase s = map lower_char s"

definition is_space :: "char \<Rightarrow> bool" where
  "is_space c = (c \<in> set [CHR 0x09, CHR 0x0A, CHR 0x0B, CHR 0x0C, CHR 0x0D, CHR '' ''])"

definition trim :: "string \<Rightarrow> string" where
  "trim s = rev (dropWhile is_space (rev (dropWhile is_space s)))"

definition is_digit :: "char \<Rightarrow> bool" where
  "is_digit c = (c \<in> set ''0123456789'')"

definition is_lower_alnum :: "char \<Rightarrow> bool" where
  "is_lower_alnum c = (c \<in> set ''abcdefghijklmnopqrstuvwxyz0123456789'')"

text \<open>\<open>s.includes(t)\<close>: \<open>t\<close> occurs in \<open>s\<close> as a contiguous substring.\<close>

fun str_includes :: "string \<Rightarrow> string \<Rightarrow> bool" where
  "str_includes [] t = (t = [])"
| "str_includes (c # s) t = (prefix t (c # s) \<or> str_includes s t)"

text \<open>
  A value that is a string or \<open>undefined\<close> (a missing column, an absent query parameter)
  is a \<open>string option\<close>. It is falsy when it is \<open>undefined\<close> or the empty string, and
  \<open>ToString\<close> of \<open>undefined\<close> is the text \<open>undefined\<close>.
\<close>

definition falsy :: "string option \<Rightarrow> bool" where
  "falsy v = (v = None \<or> v = Some [])"

definition to_string :: "string option \<Rightarrow> string" where
  "to_string v = (case v of None \<Rightarrow> ''undefined'' | Some s \<Rightarrow> s)"

subsection \<open>The global function parseFloat\<close>

definition digit_val :: "char \<Rightarrow> int" where
  "digit_val c = (case map_of (zip ''0123456789'' [0, 1, 2, 3, 4, 5, 6, 7, 8, 9]) c of
                    Some d \<Rightarrow> d | None \<Rightarrow> 0)"

definition digits_val :: "string \<Rightarrow> int" where
  "digits_val ds = foldl (\<lambda>n c. 10 * n + digit_val c) 0 ds"

text \<open>The exponent part \<open>e\<close>, optional sign, at least one digit; absent or incomplete, it is 0.\<close>

definition exponent_part :: "string \<Rightarrow> int" where
  "exponent_part r =
     (case r of
        [] \<Rightarrow> 0
      | c # r1 \<Rightarrow>
          if c = CHR ''e'' \<or> c = CHR ''E'' then
            (case r1 of
               [] \<Rightarrow> 0
             | s # r2 \<Rightarrow>
                 if s = CHR ''-'' then
                   (if takeWhile is_digit r2 = [] then 0
                    else - digits_val (takeWhile is_digit r2))
                 else if s = CHR ''+'' then digits_val (takeWhile is_digit r2)
                 else digits_val (takeWhile is_digit r1))
          else 0)"

definition pow10 :: "int \<Rightarrow> real" where
  "pow10 e = (if 0 \<le> e then 10 ^ nat e else 1 / 10 ^ nat (- e))"

text \<open>
  \<open>parseFloat\<close> skips leading white space and reads the longest prefix that is a decimal
  literal (sign, \<open>Infinity\<close> or digits with an optional fraction and exponent); with no such
  prefix the result is \<open>NaN\<close>. The argument \<open>undefined\<close> is converted to the text
  \<open>undefined\<close> first, which has no such prefix.
\<close>

definition unsigned_literal :: "string \<Rightarrow> jsnum" where
  "unsigned_literal u =
     (if prefix ''Infinity'' u then PosInf
      else
        let ip = takeWhile is_digit u;
            r1 = dropWhile is_digit u;
            fp = (case r1 of [] \<Rightarrow> [] | c # r \<Rightarrow> if c = CHR ''.'' then takeWhile is_digit r else []);
            r2 = (case r1 of [] \<Rightarrow> [] | c # r \<Rightarrow> if c = CHR ''.'' then dropWhile is_digit r else r1)
        in if ip = [] \<and> fp = [] then NaN
           else Fin ((real_of_int (digits_val ip) + real_of_int (digits_val fp) / 10 ^ length fp)
                     * pow10 (exponent_part r2)))"

definition parseFloat :: "string option \<Rightarrow> jsnum" where
  "parseFloat v =
     (case dropWhile is_space (to_string v) of
        [] \<Rightarrow> NaN
      | c # r \<Rightarrow>
          if c = CHR ''-'' then js_neg (unsigned_literal r)
          else if c = CHR ''+'' then unsigned_literal r
          else unsigned_literal (c # r))"

section \<open>Cleaning\<close>

text \<open>
  A raw row, as the CSV parser yields it with a header line: a mapping from column names
  to strings; a column the row does not have reads as \<open>undefined\<close>.
\<close>

type_synonym RawRow = "string \<Rightarrow> string option"

text \<open>
  The three record shapes of the two routes share their first fields: the statistics
  route's record, the record the dataset route returns, and the dataset route's cached
  record, which also carries the search helper field.
\<close>

record StatRecord =
  Recipe_name :: string
  Diet_type :: string
  Cuisine_type :: string
  Protein_g :: jsnum
  Carbs_g :: jsnum
  Fat_g :: jsnum
  Calories :: jsnum

record RecordView = StatRecord +
  Total_macros :: jsnum

record DietRecord = RecordView +
  Recipe_name_search :: string

definition dedup_key :: "RawRow \<Rightarrow> string" where
  "dedup_key row = to_string (row ''Recipe_name'') @ ''_'' @ to_string (row ''Diet_type'')"

definition missing_required :: "RawRow \<Rightarrow> bool" where
  "missing_required row = (falsy (row ''Recipe_name'') \<or> falsy (row ''Diet_type''))"

definition protein_of :: "RawRow \<Rightarrow> jsnum" where
  "protein_of row = or_zero (parseFloat (row ''Protein(g)''))"

definition carbs_of :: "RawRow \<Rightarrow> jsnum" where
  "carbs_of row = or_zero (parseFloat (row ''Carbs(g)''))"

definition fat_of :: "RawRow \<Rightarrow> jsnum" where
  "fat_of row = or_zero (parseFloat (row ''Fat(g)''))"

definition is_outlier :: "RawRow \<Rightarrow> bool" where
  "is_outlier row =
     (js_ge (protein_of row) (Fin 2000) \<or> js_ge (carbs_of row) (Fin 3000)
      \<or> js_ge (fat_of row) (Fin 2000))"

definition cuisine_of :: "RawRow \<Rightarrow> string" where
  "cuisine_of row =
     (case row ''Cuisine_type'' of None \<Rightarrow> [] | Some c \<Rightarrow> trim (toLowerCase c))"

text \<open>The object pushed by \<open>cleanDataset\<close> for a row that passed the three checks.\<close>

definition clean_record :: "RawRow \<Rightarrow> DietRecord" where
  "clean_record row =
     (let protein = protein_of row; carbs = carbs_of row; fat = fat_of row;
          totalMacros = js_add (js_add protein carbs) fat;
          calories = js_add (js_add (js_mul protein (Fin 4)) (js_mul carbs (Fin 4)))
                            (js_mul fat (Fin 9));
          recipeNameSearch =
            filter (\<lambda>c. is_lower_alnum c \<or> is_space c)
              (toLowerCase (to_string (row ''Recipe_name'')))
      in \<lparr> Recipe_name = trim (to_string (row ''Recipe_name'')),
           Diet_type = trim (toLowerCase (to_string (row ''Diet_type''))),
           Cuisine_type = cuisine_of row,
           Protein_g = protein, Carbs_g = carbs, Fat_g = fat,
           Calories = calories, Total_macros = totalMacros,
           Recipe_name_search = recipeNameSearch \<rparr>)"

text \<open>The loop of \<open>cleanDataset\<close>, with its two locals \<open>seen\<close> and \<open>cleaned\<close>.\<close>

fun clean_loop :: "string set \<Rightarrow> DietRecord list \<Rightarrow> RawRow list \<Rightarrow> DietRecord list" where
  "clean_loop seen cleaned [] = cleaned"
| "clean_loop seen cleaned (row # rest) =
     (if missing_required row then clean_loop seen cleaned rest
      else if dedup_key row \<in> seen then clean_loop seen cleaned rest
      else if is_outlier row then clean_loop (insert (dedup_key row) seen) cleaned rest
      else clean_loop (insert (dedup_key row) seen) (cleaned @ [clean_record row]) rest)"

definition cleanDataset :: "RawRow list \<Rightarrow> DietRecord list" where
  "cleanDataset rawData = clean_loop {} [] rawData"

text \<open>The object pushed by the cleaning loop inside \<open>loadAndCleanData\<close> (statistics route).\<close>

definition stat_record :: "RawRow \<Rightarrow> StatRecord" where
  "stat_record row =
     (let protein = protein_of row; carbs = carbs_of row; fat = fat_of row;
          calories = js_add (js_add (js_mul protein (Fin 4)) (js_mul carbs (Fin 4)))
                            (js_mul fat (Fin 9))
      in \<lparr> Recipe_name = trim (to_string (row ''Recipe_name'')),
           Diet_type = trim (toLowerCase (to_string (row ''Diet_type''))),
           Cuisine_type = cuisine_of row,
           Protein_g = protein, Carbs_g = carbs, Fat_g = fat,
           Calories = calories \<rparr>)"

fun stat_loop :: "string set \<Rightarrow> StatRecord list \<Rightarrow> RawRow list \<Rightarrow> StatRecord list" where
  "stat_loop seen cleaned [] = cleaned"
| "stat_loop seen cleaned (row # rest) =
     (if missing_required row then stat_loop seen cleaned rest
      else if dedup_key row \<in> seen then stat_loop seen cleaned rest
      else if is_outlier row then stat_loop (insert (dedup_key row) seen) cleaned rest
      else stat_loop (insert (dedup_key row) seen) (cleaned @ [stat_record row]) rest)"

definition loadAndCleanData :: "RawRow list \<Rightarrow> StatRecord list" where
  "loadAndCleanData parsed = stat_loop {} [] parsed"

text \<open>
  The rows for which the loop reaches \<open>cleaned.push\<close>, in input order: a row is kept when
  it has both required fields, its key has not been seen and it is no outlier; its key is
  recorded as seen before the outlier check.
\<close>

fun pushed_rows :: "string set \<Rightarrow> RawRow list \<Rightarrow> RawRow list" where
  "pushed_rows seen [] = []"
| "pushed_rows seen (row # rest) =
     (if missing_required row then pushed_rows seen rest
      else if dedup_key row \<in> seen then pushed_rows seen rest
      else if is_outlier row then pushed_rows (insert (dedup_key row) seen) rest
      else row # pushed_rows (insert (dedup_key row) seen) rest)"


text \<open>The fields the two cleaning loops have in common, read off a dataset record.\<close>

definition shared_fields :: "DietRecord \<Rightarrow> StatRecord" where
  "shared_fields r =
     \<lparr> Recipe_name = Recipe_name r, Diet_type = Diet_type r, Cuisine_type = Cuisine_type r,
       Protein_g = Protein_g r, Carbs_g = Carbs_g r, Fat_g = Fat_g r, Calories = Calories r \<rparr>"

text \<open>A number that is neither \<open>NaN\<close> nor \<open>+Infinity\<close>.\<close>

definition below_inf :: "jsnum \<Rightarrow> bool" where
  "below_inf a = (a \<noteq> NaN \<and> a \<noteq> PosInf)"

text \<open>A parsed CSV row with the six columns the cleaning reads, for concrete inputs.\<close>

definition csv_row :: "string \<Rightarrow> string \<Rightarrow> string \<Rightarrow> string \<Rightarrow> string \<Rightarrow> string \<Rightarrow> RawRow" where
  "csv_row n d c p cb f =
     [''Recipe_name'' \<mapsto> n, ''Diet_type'' \<mapsto> d, ''Cuisine_type'' \<mapsto> c,
      ''Protein(g)'' \<mapsto> p, ''Carbs(g)'' \<mapsto> cb, ''Fat(g)'' \<mapsto> f]"

section \<open>The dataset route\<close>

subsection \<open>Files and module state\<close>

text \<open>
  The two places the dataset route looks for the CSV file, in the order of
  \<open>possiblePaths\<close>: the Docker volume mount and the local development path. The
  statistics route reads the local path only.
\<close>

datatype csv_path = DockerPath | LocalPath

text \<open>
  A file is its modification time \<open>stats.mtimeMs\<close> and its content. The CSV parser is a
  library, and a deterministic function of the text, so the content is given as the rows
  the parser yields for it.
\<close>

record csv_file =
  mtimeMs :: real
  parsed :: "RawRow list"

type_synonym filesystem = "csv_path \<Rightarrow> csv_file option"

fun findCSVPath :: "filesystem \<Rightarrow> string + csv_path" where
  "findCSVPath fs =
     (if fs DockerPath \<noteq> None then Inr DockerPath
      else if fs LocalPath \<noteq> None then Inr LocalPath
      else Inl ''CSV file not found in any expected location'')"

text \<open>
  The module-level variables of the dataset route, with the arrays they refer to: an array
  is an object with identity, \<open>cachedData\<close> holds a reference, and \<open>sort\<close> works in
  place, so arrays live in a store indexed by reference.
\<close>

record dataset_module =
  arrays :: "nat \<Rightarrow> DietRecord list"
  next_ref :: nat
  CSV_FILE_PATH :: "csv_path option"
  cachedData :: "nat option"
  lastFileModTime :: "real option"

definition initial_module :: dataset_module where
  "initial_module =
     \<lparr> arrays = (\<lambda>_. []), next_ref = 0, CSV_FILE_PATH = None, cachedData = None,
       lastFileModTime = None \<rparr>"

definition new_array :: "DietRecord list \<Rightarrow> dataset_module \<Rightarrow> nat \<times> dataset_module" where
  "new_array xs st =
     (next_ref st, st\<lparr> arrays := (arrays st)(next_ref st := xs), next_ref := Suc (next_ref st) \<rparr>)"

text \<open>The path \<open>loadData\<close> uses: \<open>CSV_FILE_PATH\<close>, initialised on the first call.\<close>

definition resolve_path :: "filesystem \<Rightarrow> dataset_module \<Rightarrow> string + csv_path" where
  "resolve_path fs st = (case CSV_FILE_PATH st of None \<Rightarrow> findCSVPath fs | Some p \<Rightarrow> Inr p)"

text \<open>\<open>loadData\<close>: the reference it returns, or the message of the error it throws.\<close>

definition loadData :: "filesystem \<Rightarrow> dataset_module \<Rightarrow> (string + nat) \<times> dataset_module" where
  "loadData fs st =
     (case resolve_path fs st of
        Inl e \<Rightarrow> (Inl e, st)
      | Inr p \<Rightarrow>
          let st1 = st\<lparr> CSV_FILE_PATH := Some p \<rparr> in
          (case fs p of
             None \<Rightarrow> (Inl ''CSV file not found'', st1)
           | Some f \<Rightarrow>
               let (a, st2) = new_array (cleanDataset (parsed f)) st1;
                   rebuilt = (Inr a, st2\<lparr> cachedData := Some a,
                                            lastFileModTime := Some (mtimeMs f) \<rparr>)
               in (case cachedData st1 of
                     None \<Rightarrow> rebuilt
                   | Some c \<Rightarrow>
                       if lastFileModTime st1 = Some (mtimeMs f) then (Inr c, st1) else rebuilt)))"

text \<open>The dataset the cache variable refers to, if any.\<close>

definition cached_dataset :: "dataset_module \<Rightarrow> DietRecord list option" where
  "cached_dataset st = map_option (arrays st) (cachedData st)"

subsection \<open>Filtering\<close>

text \<open>The query string: \<open>searchParams.get\<close> yields the first value of a name, or \<open>null\<close>.\<close>

type_synonym params = "string \<Rightarrow> string option"

text \<open>
  The local variable \<open>data\<close> is a reference. Each \<open>data = data.filter(...)\<close> under its
  \<open>if\<close> makes a new array and points \<open>data\<close> to it; with the condition false \<open>data\<close> is
  left as it is.
\<close>

definition filter_step ::
  "bool \<Rightarrow> (DietRecord \<Rightarrow> bool) \<Rightarrow> nat \<times> dataset_module \<Rightarrow> nat \<times> dataset_module" where
  "filter_step c p s = (if c then new_array (filter p (arrays (snd s) (fst s))) (snd s) else s)"

definition lower_trim :: "string option \<Rightarrow> string option" where
  "lower_trim v = map_option (\<lambda>s. trim (toLowerCase s)) v"

definition run_filters :: "params \<Rightarrow> nat \<times> dataset_module \<Rightarrow> nat \<times> dataset_module" where
  "run_filters q s0 =
     (let dietType = lower_trim (q ''diet_type'');
          s1 = filter_step (\<not> falsy dietType) (\<lambda>item. Some (Diet_type item) = dietType) s0;
          cuisineType = lower_trim (q ''cuisine_type'');
          s2 = filter_step (\<not> falsy cuisineType) (\<lambda>item. Some (Cuisine_type item) = cuisineType) s1;
          search = lower_trim (q ''search'');
          s3 = filter_step (\<not> falsy search)
                 (\<lambda>item. str_includes (Recipe_name_search item) (to_string search)) s2;
          minProtein = q ''min_protein'';
          s4 = filter_step (\<not> falsy minProtein)
                 (\<lambda>item. js_ge (Protein_g item) (parseFloat minProtein)) s3;
          maxProtein = q ''max_protein'';
          s5 = filter_step (\<not> falsy maxProtein)
                 (\<lambda>item. js_le (Protein_g item) (parseFloat maxProtein)) s4;
          minCarbs = q ''min_carbs'';
          s6 = filter_step (\<not> falsy minCarbs)
                 (\<lambda>item. js_ge (Carbs_g item) (parseFloat minCarbs)) s5;
          maxCarbs = q ''max_carbs'';
          s7 = filter_step (\<not> falsy maxCarbs)
                 (\<lambda>item. js_le (Carbs_g item) (parseFloat maxCarbs)) s6;
          minFat = q ''min_fat'';
          s8 = filter_step (\<not> falsy minFat)
                 (\<lambda>item. js_ge (Fat_g item) (parseFloat minFat)) s7;
          maxFat = q ''max_fat'';
          s9 = filter_step (\<not> falsy maxFat)
                 (\<lambda>item. js_le (Fat_g item) (parseFloat maxFat)) s8;
          minCalories = q ''min_calories'';
          s10 = filter_step (\<not> falsy minCalories)
                  (\<lambda>item. js_ge (or_zero (Calories item)) (parseFloat minCalories)) s9;
          maxCalories = q ''max_calories'';
          s11 = filter_step (\<not> falsy maxCalories)
                  (\<lambda>item. js_le (or_zero (Calories item)) (parseFloat maxCalories)) s10
      in s11)"

subsection \<open>Sorting\<close>

text \<open>
  Two library functions the comparator of the sort reaches are not code of the routes and
  are taken as parameters: \<open>localeCompare\<close> (the collation of the host's locale) and the
  conversion of a string to a number when one of two names is a string and the other is not.
\<close>

record runtime =
  localeCompare :: "string \<Rightarrow> string \<Rightarrow> jsnum"
  ToNumber :: "string \<Rightarrow> jsnum"

text \<open>
  \<open>sortFieldMap[sortBy]\<close>. Besides its five own keys the object literal inherits
  \<open>constructor\<close> and \<open>__proto__\<close>, the two names of its prototype without an upper-case
  letter; their values are truthy and name no field of a record.
\<close>

datatype sort_field = ByProtein | ByCarbs | ByFat | ByCalories | ByRecipeName | Inherited

definition sortFieldMap :: "string \<Rightarrow> sort_field option" where
  "sortFieldMap k =
     map_of [(''protein'', ByProtein), (''carbs'', ByCarbs), (''fat'', ByFat),
             (''calories'', ByCalories), (''recipe_name'', ByRecipeName),
             (''constructor'', Inherited), (''__proto__'', Inherited)] k"

datatype jsval = Num jsnum | Str string

text \<open>\<open>a[field] || 0\<close>\<close>

fun field_or_zero :: "sort_field \<Rightarrow> DietRecord \<Rightarrow> jsval" where
  "field_or_zero ByProtein a = Num (or_zero (Protein_g a))"
| "field_or_zero ByCarbs a = Num (or_zero (Carbs_g a))"
| "field_or_zero ByFat a = Num (or_zero (Fat_g a))"
| "field_or_zero ByCalories a = Num (or_zero (Calories a))"
| "field_or_zero ByRecipeName a = (if Recipe_name a = [] then Num (Fin 0) else Str (Recipe_name a))"
| "field_or_zero Inherited a = Num (Fin 0)"

fun as_number :: "runtime \<Rightarrow> jsval \<Rightarrow> jsnum" where
  "as_number rt (Num n) = n"
| "as_number rt (Str s) = ToNumber rt s"

fun compare_vals :: "runtime \<Rightarrow> string \<Rightarrow> jsval \<Rightarrow> jsval \<Rightarrow> jsnum" where
  "compare_vals rt sortOrder (Str x) (Str y) =
     (if sortOrder = ''asc'' then localeCompare rt x y else localeCompare rt y x)"
| "compare_vals rt sortOrder aVal bVal =
     (if sortOrder = ''asc'' then js_sub (as_number rt aVal) (as_number rt bVal)
      else js_sub (as_number rt bVal) (as_number rt aVal))"

definition comparator :: "runtime \<Rightarrow> sort_field \<Rightarrow> string \<Rightarrow> DietRecord \<Rightarrow> DietRecord \<Rightarrow> jsnum" where
  "comparator rt field sortOrder a b =
     compare_vals rt sortOrder (field_or_zero field a) (field_or_zero field b)"

text \<open>
  \<open>Array.prototype.sort\<close> is stable: modelled as the stable insertion sort, where an
  element moves behind a later one only when the comparator is positive on the two (a
  result of 0 or \<open>NaN\<close> leaves them in place). For a comparator that is a consistent order
  every stable sort gives this result; for another one the language leaves the order to the
  implementation.
\<close>

fun sort_insert :: "('a \<Rightarrow> 'a \<Rightarrow> jsnum) \<Rightarrow> 'a \<Rightarrow> 'a list \<Rightarrow> 'a list" where
  "sort_insert cmp x [] = [x]"
| "sort_insert cmp x (y # ys) =
     (if js_gt (cmp x y) (Fin 0) then y # sort_insert cmp x ys else x # y # ys)"

fun js_sort :: "('a \<Rightarrow> 'a \<Rightarrow> jsnum) \<Rightarrow> 'a list \<Rightarrow> 'a list" where
  "js_sort cmp [] = []"
| "js_sort cmp (x # xs) = sort_insert cmp x (js_sort cmp xs)"

definition sort_by_param :: "params \<Rightarrow> string option" where
  "sort_by_param q = map_option toLowerCase (q ''sort_by'')"

definition sort_order_param :: "params \<Rightarrow> string" where
  "sort_order_param q =
     (let v = map_option toLowerCase (q ''sort_order'') in if falsy v then ''asc'' else to_string v)"

text \<open>\<open>data.sort(...)\<close> under its \<open>if\<close>: the array \<open>data\<close> refers to is reordered in place.\<close>

definition sort_step :: "runtime \<Rightarrow> params \<Rightarrow> nat \<times> dataset_module \<Rightarrow> nat \<times> dataset_module" where
  "sort_step rt q s =
     (let sortBy = sort_by_param q; sortOrder = sort_order_param q in
      if falsy sortBy then s
      else (case sortFieldMap (to_string sortBy) of
              None \<Rightarrow> s
            | Some field \<Rightarrow>
                (fst s, (snd s)\<lparr> arrays := (arrays (snd s))
                   (fst s := js_sort (comparator rt field sortOrder) (arrays (snd s) (fst s))) \<rparr>)))"

subsection \<open>The response\<close>

record filters_applied =
  fa_diet_type :: "string option"
  fa_cuisine_type :: "string option"
  fa_search :: "string option"
  fa_min_protein :: "jsnum option"
  fa_max_protein :: "jsnum option"
  fa_min_carbs :: "jsnum option"
  fa_max_carbs :: "jsnum option"
  fa_min_fat :: "jsnum option"
  fa_max_fat :: "jsnum option"
  fa_min_calories :: "jsnum option"
  fa_max_calories :: "jsnum option"
  fa_sort_by :: "string option"
  fa_sort_order :: "string option"

record dataset_response =
  data :: "RecordView list"
  total_items :: nat
  filters :: filters_applied

datatype 'a response = Ok200 'a | Error404 string | Error500 string

definition text_or_null :: "string option \<Rightarrow> string option" where
  "text_or_null v = (if falsy v then None else v)"

definition number_or_null :: "string option \<Rightarrow> jsnum option" where
  "number_or_null v = (if falsy v then None else Some (parseFloat v))"

definition echo_filters :: "params \<Rightarrow> filters_applied" where
  "echo_filters q =
     \<lparr> fa_diet_type = text_or_null (lower_trim (q ''diet_type'')),
       fa_cuisine_type = text_or_null (lower_trim (q ''cuisine_type'')),
       fa_search = text_or_null (lower_trim (q ''search'')),
       fa_min_protein = number_or_null (q ''min_protein''),
       fa_max_protein = number_or_null (q ''max_protein''),
       fa_min_carbs = number_or_null (q ''min_carbs''),
       fa_max_carbs = number_or_null (q ''max_carbs''),
       fa_min_fat = number_or_null (q ''min_fat''),
       fa_max_fat = number_or_null (q ''max_fat''),
       fa_min_calories = number_or_null (q ''min_calories''),
       fa_max_calories = number_or_null (q ''max_calories''),
       fa_sort_by = text_or_null (sort_by_param q),
       fa_sort_order = (if falsy (sort_by_param q) then None else Some (sort_order_param q)) \<rparr>"

text \<open>Removing the search helper field.\<close>

definition strip_search :: "DietRecord \<Rightarrow> RecordView" where
  "strip_search r =
     \<lparr> Recipe_name = Recipe_name r, Diet_type = Diet_type r, Cuisine_type = Cuisine_type r,
       Protein_g = Protein_g r, Carbs_g = Carbs_g r, Fat_g = Fat_g r, Calories = Calories r,
       Total_macros = Total_macros r \<rparr>"

text \<open>The handler \<open>GET\<close> of the dataset route: its response and the module state it leaves.\<close>

definition GET_dataset ::
  "runtime \<Rightarrow> filesystem \<Rightarrow> params \<Rightarrow> dataset_module
   \<Rightarrow> dataset_response response \<times> dataset_module" where
  "GET_dataset rt fs q st =
     (case loadData fs st of
        (Inl e, st1) \<Rightarrow> (Error500 e, st1)
      | (Inr a, st1) \<Rightarrow>
          let s = sort_step rt q (run_filters q (a, st1));
              cleanedData = map strip_search (arrays (snd s) (fst s))
          in (Ok200 \<lparr> data = cleanedData, total_items = length cleanedData,
                      filters = echo_filters q \<rparr>, snd s))"

subsection \<open>The query, read as a function of the loaded dataset\<close>

definition cond_filter :: "bool \<Rightarrow> ('a \<Rightarrow> bool) \<Rightarrow> 'a list \<Rightarrow> 'a list" where
  "cond_filter c p xs = (if c then filter p xs else xs)"

definition filtered :: "params \<Rightarrow> DietRecord list \<Rightarrow> DietRecord list" where
  "filtered q xs0 =
     (let dietType = lower_trim (q ''diet_type'');
          xs1 = cond_filter (\<not> falsy dietType) (\<lambda>item. Some (Diet_type item) = dietType) xs0;
          cuisineType = lower_trim (q ''cuisine_type'');
          xs2 = cond_filter (\<not> falsy cuisineType) (\<lambda>item. Some (Cuisine_type item) = cuisineType) xs1;
          search = lower_trim (q ''search'');
          xs3 = cond_filter (\<not> falsy search)
                 (\<lambda>item. str_includes (Recipe_name_search item) (to_string search)) xs2;
          xs4 = cond_filter (\<not> falsy (q ''min_protein''))
                 (\<lambda>item. js_ge (Protein_g item) (parseFloat (q ''min_protein''))) xs3;
          xs5 = cond_filter (\<not> falsy (q ''max_protein''))
                 (\<lambda>item. js_le (Protein_g item) (parseFloat (q ''max_protein''))) xs4;
          xs6 = cond_filter (\<not> falsy (q ''min_carbs''))
                 (\<lambda>item. js_ge (Carbs_g item) (parseFloat (q ''min_carbs''))) xs5;
          xs7 = cond_filter (\<not> falsy (q ''max_carbs''))
                 (\<lambda>item. js_le (Carbs_g item) (parseFloat (q ''max_carbs''))) xs6;
          xs8 = cond_filter (\<not> falsy (q ''min_fat''))
                 (\<lambda>item. js_ge (Fat_g item) (parseFloat (q ''min_fat''))) xs7;
          xs9 = cond_filter (\<not> falsy (q ''max_fat''))
                 (\<lambda>item. js_le (Fat_g item) (parseFloat (q ''max_fat''))) xs8;
          xs10 = cond_filter (\<not> falsy (q ''min_calories''))
                  (\<lambda>item. js_ge (or_zero (Calories item)) (parseFloat (q ''min_calories''))) xs9;
          xs11 = cond_filter (\<not> falsy (q ''max_calories''))
                  (\<lambda>item. js_le (or_zero (Calories item)) (parseFloat (q ''max_calories''))) xs10
      in xs11)"

definition sorted_by_query :: "runtime \<Rightarrow> params \<Rightarrow> DietRecord list \<Rightarrow> DietRecord list" where
  "sorted_by_query rt q xs =
     (if falsy (sort_by_param q) then xs
      else (case sortFieldMap (to_string (sort_by_param q)) of
              None \<Rightarrow> xs
            | Some field \<Rightarrow> js_sort (comparator rt field (sort_order_param q)) xs))"

definition query_seq :: "runtime \<Rightarrow> params \<Rightarrow> DietRecord list \<Rightarrow> DietRecord list" where
  "query_seq rt q xs = sorted_by_query rt q (filtered q xs)"

text \<open>The array the local variable \<open>data\<close> refers to.\<close>

definition contents :: "nat \<times> dataset_module \<Rightarrow> DietRecord list" where
  "contents s = arrays (snd s) (fst s)"

text \<open>The dataset a call of \<open>loadData\<close> returns, when it returns one.\<close>

definition loaded :: "filesystem \<Rightarrow> dataset_module \<Rightarrow> DietRecord list option" where
  "loaded fs st =
     (case loadData fs st of (Inl e, st1) \<Rightarrow> None | (Inr a, st1) \<Rightarrow> Some (arrays st1 a))"

definition response_data :: "dataset_response response \<Rightarrow> RecordView list" where
  "response_data r = (case r of Ok200 b \<Rightarrow> data b | Error404 e \<Rightarrow> [] | Error500 e \<Rightarrow> [])"

definition is_error :: "'a response \<Rightarrow> bool" where
  "is_error r = (case r of Ok200 b \<Rightarrow> False | Error404 e \<Rightarrow> True | Error500 e \<Rightarrow> True)"

text \<open>The eight numeric range bounds of the query string.\<close>

definition bound_params :: "string list" where
  "bound_params =
     [''min_protein'', ''max_protein'', ''min_carbs'', ''max_carbs'',
      ''min_fat'', ''max_fat'', ''min_calories'', ''max_calories'']"

subsection \<open>The pagination of the specification\<close>

text \<open>
  The specification's pagination, in its words, to compare the route with: \<open>page\<close> at
  least 1 with default 1, \<open>per_page\<close> clamped to 1..100 with default 20, and the page
  \<open>[(page - 1) * per_page, page * per_page)\<close> of a sequence.
\<close>

definition spec_page :: "int option \<Rightarrow> nat" where
  "spec_page v = (case v of None \<Rightarrow> 1 | Some n \<Rightarrow> nat (max 1 n))"

definition spec_per_page :: "int option \<Rightarrow> nat" where
  "spec_per_page v = (case v of None \<Rightarrow> 20 | Some n \<Rightarrow> nat (max 1 (min 100 n)))"

definition spec_slice :: "nat \<Rightarrow> nat \<Rightarrow> 'a list \<Rightarrow> 'a list" where
  "spec_slice page per_page xs = take per_page (drop ((page - 1) * per_page) xs)"

subsection \<open>Concrete inputs\<close>

text \<open>A file system with the CSV file at the local path only.\<close>

definition local_file :: "real \<Rightarrow> RawRow list \<Rightarrow> filesystem" where
  "local_file t rows = (\<lambda>p. None)(LocalPath \<mapsto> \<lparr> mtimeMs = t, parsed = rows \<rparr>)"

text \<open>
  A runtime for evaluating concrete requests; none of the requests evaluated below sorts
  by name, so neither function is reached.
\<close>

definition plain_runtime :: runtime where
  "plain_runtime = \<lparr> localeCompare = (\<lambda>a b. Fin 0), ToNumber = (\<lambda>s. NaN) \<rparr>"

definition two_rows :: "RawRow list" where
  "two_rows = [csv_row ''A'' ''paleo'' ''thai'' ''10'' ''10'' ''10'',
               csv_row ''B'' ''keto'' ''thai'' ''20'' ''20'' ''20'']"

definition record_A :: DietRecord where
  "record_A = \<lparr> Recipe_name = ''A'', Diet_type = ''paleo'', Cuisine_type = ''thai'',
                Protein_g = Fin 10, Carbs_g = Fin 10, Fat_g = Fin 10, Calories = Fin 170,
                Total_macros = Fin 30, Recipe_name_search = ''a'' \<rparr>"

definition record_B :: DietRecord where
  "record_B = \<lparr> Recipe_name = ''B'', Diet_type = ''keto'', Cuisine_type = ''thai'',
                Protein_g = Fin 20, Carbs_g = Fin 20, Fat_g = Fin 20, Calories = Fin 340,
                Total_macros = Fin 60, Recipe_name_search = ''b'' \<rparr>"

text \<open>The module after a first call of \<open>loadData\<close> on a file at the local path.\<close>

definition warm_module :: "real \<Rightarrow> RawRow list \<Rightarrow> dataset_module" where
  "warm_module t rows = snd (loadData (local_file t rows) initial_module)"

section \<open>The statistics route\<close>

subsection \<open>Objects, rounding, maximum\<close>

text \<open>
  A plain object used as a dictionary is the list of its own properties in property order:
  keys that are array indices first, in ascending numeric order, then the other keys in
  the order of their creation. A key that names a property every object inherits
  (\<open>constructor\<close>, \<open>__proto__\<close>) is not modelled.
\<close>

definition is_array_index :: "string \<Rightarrow> bool" where
  "is_array_index k =
     (k = ''0'' \<or> (k \<noteq> [] \<and> list_all is_digit k \<and> hd k \<noteq> CHR ''0''
                   \<and> digits_val k < 4294967295))"

fun obj_put :: "string \<Rightarrow> 'v \<Rightarrow> (string \<times> 'v) list \<Rightarrow> (string \<times> 'v) list" where
  "obj_put k v [] = [(k, v)]"
| "obj_put k v ((k', v') # rest) =
     (if k = k' then (k, v) # rest
      else if is_array_index k
              \<and> (\<not> is_array_index k' \<or> digits_val k < digits_val k')
           then (k, v) # (k', v') # rest
      else (k', v') # obj_put k v rest)"

text \<open>\<open>obj[k] = (obj[k] || 0) + 1\<close>\<close>

definition count_key :: "string \<Rightarrow> (string \<times> nat) list \<Rightarrow> (string \<times> nat) list" where
  "count_key k obj = obj_put k ((case map_of obj k of None \<Rightarrow> 0 | Some n \<Rightarrow> n) + 1) obj"

text \<open>\<open>if (!groups[k]) groups[k] = []; groups[k].push(item)\<close>\<close>

definition group_push :: "string \<Rightarrow> 'a \<Rightarrow> (string \<times> 'a list) list \<Rightarrow> (string \<times> 'a list) list" where
  "group_push k item groups =
     obj_put k ((case map_of groups k of None \<Rightarrow> [] | Some items \<Rightarrow> items) @ [item]) groups"

text \<open>
  \<open>parseFloat(x.toFixed(2))\<close>: the nearest multiple of 1/100, a tie going away from zero;
  from \<open>10^21\<close> on \<open>toFixed\<close> prints the number itself, and the three special values
  print as their names, which \<open>parseFloat\<close> reads back.
\<close>

fun round2 :: "jsnum \<Rightarrow> jsnum" where
  "round2 (Fin x) =
     (if 10 ^ 21 \<le> \<bar>x\<bar> then Fin x
      else if x < 0 then Fin (- (real_of_int \<lfloor>(- x) * 100 + 1 / 2\<rfloor> / 100))
      else Fin (real_of_int \<lfloor>x * 100 + 1 / 2\<rfloor> / 100))"
| "round2 PosInf = PosInf"
| "round2 NegInf = NegInf"
| "round2 NaN = NaN"

text \<open>\<open>Math.max(...xs)\<close>: \<open>-Infinity\<close> for no argument, \<open>NaN\<close> if any argument is \<open>NaN\<close>.\<close>

definition max2 :: "jsnum \<Rightarrow> jsnum \<Rightarrow> jsnum" where
  "max2 a b = (if a = NaN \<or> b = NaN then NaN else if js_lt a b then b else a)"

definition Math_max :: "jsnum list \<Rightarrow> jsnum" where
  "Math_max xs = foldl max2 NegInf xs"

text \<open>\<open>xs.reduce((sum, x) => sum + x, 0)\<close>\<close>

definition sum_from_zero :: "jsnum list \<Rightarrow> jsnum" where
  "sum_from_zero xs = foldl js_add (Fin 0) xs"

text \<open>\<open>[...new Set(xs)]\<close>: the distinct elements in the order of their first occurrence.\<close>

fun distinct_in_order :: "'a list \<Rightarrow> 'a list" where
  "distinct_in_order [] = []"
| "distinct_in_order (x # xs) = x # distinct_in_order (filter (\<lambda>y. y \<noteq> x) xs)"

text \<open>\<open>xs.sort()\<close> on strings: ascending by code units.\<close>

fun code_unit_less :: "string \<Rightarrow> string \<Rightarrow> bool" where
  "code_unit_less [] [] = False"
| "code_unit_less [] (b # t) = True"
| "code_unit_less (a # s) [] = False"
| "code_unit_less (a # s) (b # t) =
     ((of_char a :: nat) < of_char b \<or> (a = b \<and> code_unit_less s t))"

definition sort_strings :: "string list \<Rightarrow> string list" where
  "sort_strings xs = js_sort (\<lambda>a b. if code_unit_less b a then Fin 1 else Fin 0) xs"

subsection \<open>calculateStatistics\<close>

record macro_averages =
  Protein_avg :: jsnum
  Carbs_avg :: jsnum
  Fat_avg :: jsnum
  Calories_avg :: jsnum

record overall =
  avg_protein :: jsnum
  avg_carbs :: jsnum
  avg_fat :: jsnum
  avg_calories :: jsnum
  max_protein :: jsnum
  max_carbs :: jsnum
  max_fat :: jsnum
  max_calories :: jsnum

record calorie_entry =
  c_Recipe_name :: string
  c_Diet_type :: string
  c_Cuisine_type :: string
  c_Calories :: jsnum

record protein_entry =
  p_Recipe_name :: string
  p_Diet_type :: string
  p_Cuisine_type :: string
  p_Protein_g :: jsnum

record statistics =
  total_recipes :: nat
  diet_types :: "string list"
  cuisine_types :: "string list"
  recipes_by_diet :: "(string \<times> nat) list"
  recipes_by_cuisine :: "(string \<times> nat) list"
  avg_macros_by_diet :: "(string \<times> macro_averages) list"
  avg_macros_by_cuisine :: "(string \<times> macro_averages) list"
  overall_stats :: overall
  top_calorie_recipes :: "calorie_entry list"
  high_protein_recipes :: "protein_entry list"

definition average_of :: "(StatRecord \<Rightarrow> jsnum) \<Rightarrow> StatRecord list \<Rightarrow> jsnum" where
  "average_of field items =
     js_div (sum_from_zero (map field items)) (Fin (real (length items)))"

definition group_averages :: "StatRecord list \<Rightarrow> macro_averages" where
  "group_averages items =
     \<lparr> Protein_avg = round2 (average_of Protein_g items),
       Carbs_avg = round2 (average_of Carbs_g items),
       Fat_avg = round2 (average_of Fat_g items),
       Calories_avg = round2 (average_of Calories items) \<rparr>"

definition averages_by_group ::
  "(string \<times> StatRecord list) list \<Rightarrow> (string \<times> macro_averages) list" where
  "averages_by_group groups =
     foldl (\<lambda>acc (k, items). obj_put k (group_averages items) acc) [] groups"

definition calculateStatistics :: "StatRecord list \<Rightarrow> statistics" where
  "calculateStatistics dat =
     (let recipesByDiet = foldl (\<lambda>obj item. count_key (Diet_type item) obj) [] dat;
          recipesByCuisine =
            foldl (\<lambda>obj item. if Cuisine_type item \<noteq> [] then count_key (Cuisine_type item) obj
                               else obj) [] dat;
          top20Cuisines =
            foldl (\<lambda>acc (k, v). obj_put k v acc) []
              (take 20 (js_sort (\<lambda>a b. js_sub (Fin (real (snd b))) (Fin (real (snd a))))
                          recipesByCuisine));
          dietGroups = foldl (\<lambda>groups item. group_push (Diet_type item) item groups) [] dat;
          avgMacrosByDiet = averages_by_group dietGroups;
          cuisineGroups =
            foldl (\<lambda>groups item. if Cuisine_type item \<noteq> []
                                   then group_push (Cuisine_type item) item groups
                                   else groups) [] dat;
          avgMacrosByCuisine = averages_by_group cuisineGroups;
          overallStats =
            \<lparr> avg_protein = round2 (average_of Protein_g dat),
              avg_carbs = round2 (average_of Carbs_g dat),
              avg_fat = round2 (average_of Fat_g dat),
              avg_calories = round2 (average_of Calories dat),
              max_protein = round2 (Math_max (map Protein_g dat)),
              max_carbs = round2 (Math_max (map Carbs_g dat)),
              max_fat = round2 (Math_max (map Fat_g dat)),
              max_calories = round2 (Math_max (map Calories dat)) \<rparr>;
          topCalorieRecipes =
            map (\<lambda>item. \<lparr> c_Recipe_name = Recipe_name item, c_Diet_type = Diet_type item,
                          c_Cuisine_type = Cuisine_type item, c_Calories = Calories item \<rparr>)
              (take 10 (js_sort (\<lambda>a b. js_sub (Calories b) (Calories a)) dat));
          highProteinRecipes =
            map (\<lambda>item. \<lparr> p_Recipe_name = Recipe_name item, p_Diet_type = Diet_type item,
                          p_Cuisine_type = Cuisine_type item, p_Protein_g = Protein_g item \<rparr>)
              (take 10 (js_sort (\<lambda>a b. js_sub (Protein_g b) (Protein_g a)) dat))
      in \<lparr> total_recipes = length dat,
           diet_types = sort_strings (distinct_in_order (map Diet_type dat)),
           cuisine_types =
             sort_strings (distinct_in_order (filter (\<lambda>c. c \<noteq> []) (map Cuisine_type dat))),
           recipes_by_diet = recipesByDiet,
           recipes_by_cuisine = top20Cuisines,
           avg_macros_by_diet = avgMacrosByDiet,
           avg_macros_by_cuisine = avgMacrosByCuisine,
           overall_stats = overallStats,
           top_calorie_recipes = topCalorieRecipes,
           high_protein_recipes = highProteinRecipes \<rparr>)"

subsection \<open>The handler and its cache\<close>

record stats_module =
  cachedStats :: "statistics option"
  lastStatsCalcTime :: "int option"

definition initial_stats :: stats_module where
  "initial_stats = \<lparr> cachedStats = None, lastStatsCalcTime = None \<rparr>"

definition CACHE_DURATION :: int where
  "CACHE_DURATION = 3600000"

text \<open>
  \<open>cachedStats && lastStatsCalcTime && (now - lastStatsCalcTime) < CACHE_DURATION\<close>; a
  stored time of 0 is falsy.
\<close>

definition stats_fresh :: "int \<Rightarrow> stats_module \<Rightarrow> bool" where
  "stats_fresh now st =
     (cachedStats st \<noteq> None
      \<and> (case lastStatsCalcTime st of
            None \<Rightarrow> False
          | Some t \<Rightarrow> t \<noteq> 0 \<and> now - t < CACHE_DURATION))"

text \<open>
  The handler \<open>GET\<close> of the statistics route, at the time \<open>now\<close> that \<open>Date.now()\<close>
  yields: its response and the module state it leaves. It reads the local path.
\<close>

definition GET_statistics ::
  "filesystem \<Rightarrow> int \<Rightarrow> stats_module \<Rightarrow> statistics response \<times> stats_module" where
  "GET_statistics fs now st =
     (case (if stats_fresh now st then cachedStats st else None) of
        Some cached \<Rightarrow> (Ok200 cached, st)
      | None \<Rightarrow>
          (case fs LocalPath of
             None \<Rightarrow> (Error404 ''Dataset file not found'', st)
           | Some f \<Rightarrow>
               let dat = loadAndCleanData (parsed f);
                   stats = calculateStatistics dat
               in (Ok200 stats, \<lparr> cachedStats = Some stats, lastStatsCalcTime = Some now \<rparr>)))"


definition empty_snapshot :: statistics where
  "empty_snapshot =
     \<lparr> total_recipes = 0, diet_types = [], cuisine_types = [], recipes_by_diet = [],
       recipes_by_cuisine = [], avg_macros_by_diet = [], avg_macros_by_cuisine = [],
       overall_stats =
         \<lparr> avg_protein = NaN, avg_carbs = NaN, avg_fat = NaN, avg_calories = NaN,
           max_protein = NegInf, max_carbs = NegInf, max_fat = NegInf, max_calories = NegInf \<rparr>,
       top_calorie_recipes = [], high_protein_recipes = [] \<rparr>"


section \<open>Properties of the cleaning loops\<close>

lemma clean_loop_pushed:
  "clean_loop seen cleaned rows = cleaned @ map clean_record (pushed_rows seen rows)"
  by (induction rows arbitrary: seen cleaned) simp_all

lemma stat_loop_pushed:
  "stat_loop seen cleaned rows = cleaned @ map stat_record (pushed_rows seen rows)"
  by (induction rows arbitrary: seen cleaned) simp_all

lemma cleanDataset_pushed: "cleanDataset rows = map clean_record (pushed_rows {} rows)"
  by (simp add: cleanDataset_def clean_loop_pushed)

lemma loadAndCleanData_pushed: "loadAndCleanData rows = map stat_record (pushed_rows {} rows)"
  by (simp add: loadAndCleanData_def stat_loop_pushed)


lemma pushed_rows_not_outlier: "row \<in> set (pushed_rows seen rows) \<Longrightarrow> \<not> is_outlier row"
  by (induction rows arbitrary: seen) (auto split: if_splits)











lemma or_zero_not_NaN: "or_zero a \<noteq> NaN"
  by (simp add: or_zero_def num_truthy_def)

lemma not_ge_below_inf: "a \<noteq> NaN \<Longrightarrow> \<not> js_ge a (Fin c) \<Longrightarrow> below_inf a"
  by (cases a) (simp_all add: js_ge_def js_le_def below_inf_def)

lemma below_inf_mul: "below_inf a \<Longrightarrow> 0 < c \<Longrightarrow> below_inf (js_mul a (Fin c))"
  by (cases a) (simp_all add: below_inf_def)

lemma below_inf_add: "below_inf a \<Longrightarrow> below_inf b \<Longrightarrow> below_inf (js_add a b)"
  by (cases a; cases b) (simp_all add: below_inf_def)

lemma js_eq_refl: "below_inf a \<Longrightarrow> js_eq a a"
  by (simp add: below_inf_def js_eq_def)

lemma pushed_below_inf:
  assumes "\<not> is_outlier row"
  shows "below_inf (protein_of row)" and "below_inf (carbs_of row)" and "below_inf (fat_of row)"
  using assms
  by (auto simp: is_outlier_def protein_of_def carbs_of_def fat_of_def
           intro!: not_ge_below_inf or_zero_not_NaN)

lemma clean_record_derived:
  assumes "\<not> is_outlier row"
  shows "js_eq (Calories (clean_record row))
           (js_add (js_add (js_mul (Protein_g (clean_record row)) (Fin 4))
                           (js_mul (Carbs_g (clean_record row)) (Fin 4)))
                   (js_mul (Fat_g (clean_record row)) (Fin 9)))"
    and "js_eq (Total_macros (clean_record row))
           (js_add (js_add (Protein_g (clean_record row)) (Carbs_g (clean_record row)))
                   (Fat_g (clean_record row)))"
  using pushed_below_inf[OF assms]
  by (simp_all add: clean_record_def Let_def js_eq_refl below_inf_add below_inf_mul)

lemma stat_record_derived:
  assumes "\<not> is_outlier row"
  shows "js_eq (Calories (stat_record row))
           (js_add (js_add (js_mul (Protein_g (stat_record row)) (Fin 4))
                           (js_mul (Carbs_g (stat_record row)) (Fin 4)))
                   (js_mul (Fat_g (stat_record row)) (Fin 9)))"
  using pushed_below_inf[OF assms]
  by (simp add: stat_record_def Let_def js_eq_refl below_inf_add below_inf_mul)

lemma shared_clean_record: "shared_fields (clean_record row) = stat_record row"
  by (simp add: shared_fields_def clean_record_def stat_record_def Let_def)

subsection \<open>Evaluation on concrete rows\<close>

lemma csv_row_get:
  "csv_row n d c p cb f ''Recipe_name'' = Some n"
  "csv_row n d c p cb f ''Diet_type'' = Some d"
  "csv_row n d c p cb f ''Cuisine_type'' = Some c"
  "csv_row n d c p cb f ''Protein(g)'' = Some p"
  "csv_row n d c p cb f ''Carbs(g)'' = Some cb"
  "csv_row n d c p cb f ''Fat(g)'' = Some f"
  by (simp_all add: csv_row_def)

lemmas parse_defs = parseFloat_def unsigned_literal_def to_string_def is_space_def
  is_digit_def digits_val_def digit_val_def exponent_part_def pow10_def

lemma parseFloat_samples:
  "parseFloat (Some ''10'') = Fin 10"
  "parseFloat (Some ''5'') = Fin 5"
  "parseFloat (Some ''20'') = Fin 20"
  "parseFloat (Some ''2000'') = Fin 2000"
  "parseFloat (Some ''3000'') = Fin 3000"
  "parseFloat (Some ''1'') = Fin 1"
  "parseFloat (Some ''2'') = Fin 2"
  "parseFloat (Some ''abc'') = NaN"
  by (simp_all add: parse_defs)

lemmas row_eval = csv_row_get parseFloat_samples missing_required_def falsy_def dedup_key_def
  to_string_def is_outlier_def protein_of_def carbs_of_def fat_of_def or_zero_def
  num_truthy_def js_ge_def js_le_def

lemmas record_eval = clean_record_def stat_record_def cuisine_of_def Let_def trim_def
  toLowerCase_def lower_char_def is_space_def is_lower_alnum_def



section \<open>Claims about cleaning\<close>




text \<open>
  C8: a row whose parsed protein is at least 2000, whose carbs are at least 3000 or whose
  fat is at least 2000 (an unparsable value counting as 0) is never among the rows a record
  is built from, and every record of the output is below all three thresholds.
\<close>

theorem cleanDataset_rejects_outliers:
  "cleanDataset rows = map clean_record (pushed_rows {} rows)
   \<and> (\<forall>row. is_outlier row \<longrightarrow> row \<notin> set (pushed_rows {} rows))
   \<and> (\<forall>r\<in>set (cleanDataset rows).
        \<not> js_ge (Protein_g r) (Fin 2000) \<and> \<not> js_ge (Carbs_g r) (Fin 3000)
        \<and> \<not> js_ge (Fat_g r) (Fin 2000))"
proof -
  have a: "\<forall>row. is_outlier row \<longrightarrow> row \<notin> set (pushed_rows {} rows)"
    using pushed_rows_not_outlier by blast
  have "\<forall>row\<in>set (pushed_rows {} rows).
          \<not> js_ge (Protein_g (clean_record row)) (Fin 2000)
          \<and> \<not> js_ge (Carbs_g (clean_record row)) (Fin 3000)
          \<and> \<not> js_ge (Fat_g (clean_record row)) (Fin 2000)"
    using a by (auto simp: is_outlier_def clean_record_def Let_def)
  then show ?thesis using a by (simp add: cleanDataset_pushed)
qed

theorem cleanDataset_rejects_outliers_witness:
  "is_outlier (csv_row ''B'' ''keto'' '''' ''2000'' ''5'' ''5'')
   \<and> csv_row ''B'' ''keto'' '''' ''2000'' ''5'' ''5''
       \<notin> set (pushed_rows {} [csv_row ''B'' ''keto'' '''' ''2000'' ''5'' ''5'',
                               csv_row ''A'' ''paleo'' '''' ''10'' ''10'' ''10''])
   \<and> map Recipe_name (cleanDataset [csv_row ''B'' ''keto'' '''' ''2000'' ''5'' ''5'',
                               csv_row ''A'' ''paleo'' '''' ''10'' ''10'' ''10'']) = [''A'']"
proof -
  have o: "is_outlier (csv_row ''B'' ''keto'' '''' ''2000'' ''5'' ''5'')"
    by (simp add: row_eval)
  have c: "map Recipe_name (cleanDataset [csv_row ''B'' ''keto'' '''' ''2000'' ''5'' ''5'',
                               csv_row ''A'' ''paleo'' '''' ''10'' ''10'' ''10'']) = [''A'']"
    by (simp add: cleanDataset_def row_eval record_eval)
  show ?thesis
    using o c cleanDataset_rejects_outliers
      [of "[csv_row ''B'' ''keto'' '''' ''2000'' ''5'' ''5'',
            csv_row ''A'' ''paleo'' '''' ''10'' ''10'' ''10'']"]
    by blast
qed

text \<open>
  C9: every record of either cleaning loop satisfies the derived-field equations, read in
  the arithmetic of the code and with the strict equality of the language (so no derived
  field is \<open>NaN\<close>): calories = protein * 4 + carbs * 4 + fat * 9, and on the dataset
  route total macros = protein + carbs + fat.
\<close>

theorem derived_fields_exact:
  "(\<forall>r\<in>set (cleanDataset rows).
      js_eq (Calories r)
        (js_add (js_add (js_mul (Protein_g r) (Fin 4)) (js_mul (Carbs_g r) (Fin 4)))
                (js_mul (Fat_g r) (Fin 9)))
      \<and> js_eq (Total_macros r) (js_add (js_add (Protein_g r) (Carbs_g r)) (Fat_g r)))
   \<and> (\<forall>s\<in>set (loadAndCleanData rows).
      js_eq (Calories s)
        (js_add (js_add (js_mul (Protein_g s) (Fin 4)) (js_mul (Carbs_g s) (Fin 4)))
                (js_mul (Fat_g s) (Fin 9))))"
  using pushed_rows_not_outlier[of _ "{}" rows]
  by (auto simp: cleanDataset_pushed loadAndCleanData_pushed
           intro: clean_record_derived stat_record_derived)

theorem derived_fields_exact_witness:
  "cleanDataset [csv_row ''A'' ''paleo'' [] ''10'' ''10'' ''10'']
     = [\<lparr>Recipe_name = ''A'', Diet_type = ''paleo'', Cuisine_type = [],
         Protein_g = Fin 10, Carbs_g = Fin 10, Fat_g = Fin 10, Calories = Fin 170,
         Total_macros = Fin 30, Recipe_name_search = ''a''\<rparr>]
   \<and> js_eq (Fin 170)
        (js_add (js_add (js_mul (Fin 10) (Fin 4)) (js_mul (Fin 10) (Fin 4)))
                (js_mul (Fin 10) (Fin 9)))
   \<and> js_eq (Fin 30) (js_add (js_add (Fin 10) (Fin 10)) (Fin 10))"
proof -
  have c: "cleanDataset [csv_row ''A'' ''paleo'' [] ''10'' ''10'' ''10'']
     = [\<lparr>Recipe_name = ''A'', Diet_type = ''paleo'', Cuisine_type = [],
         Protein_g = Fin 10, Carbs_g = Fin 10, Fat_g = Fin 10, Calories = Fin 170,
         Total_macros = Fin 30, Recipe_name_search = ''a''\<rparr>]"
    by (simp add: cleanDataset_def row_eval record_eval)
  show ?thesis
    using c derived_fields_exact [of "[csv_row ''A'' ''paleo'' [] ''10'' ''10'' ''10'']"]
    by simp
qed

text \<open>
  C10: the cleaning loop of the dataset route and the one inside \<open>loadAndCleanData\<close> of
  the statistics route yield, for every raw input, sequences of the same length that agree
  record by record on the seven fields they share.
\<close>

theorem cleaning_loops_agree:
  "length (cleanDataset rows) = length (loadAndCleanData rows)
   \<and> map shared_fields (cleanDataset rows) = loadAndCleanData rows"
  by (simp add: cleanDataset_pushed loadAndCleanData_pushed shared_clean_record)

section \<open>Properties of the dataset route\<close>

lemma contents_filter_step: "contents (filter_step c p s) = cond_filter c p (contents s)"
  by (simp add: contents_def filter_step_def cond_filter_def new_array_def)

lemma contents_run_filters: "contents (run_filters q s) = filtered q (contents s)"
  by (simp add: run_filters_def filtered_def Let_def contents_filter_step)

lemma contents_sort_step: "contents (sort_step rt q s) = sorted_by_query rt q (contents s)"
  by (simp add: sort_step_def sorted_by_query_def Let_def contents_def split: option.splits)

lemma contents_query: "contents (sort_step rt q (run_filters q s)) = query_seq rt q (contents s)"
  by (simp add: query_seq_def contents_sort_step contents_run_filters)

lemma GET_dataset_ok:
  assumes "loadData fs st = (Inr a, st1)"
  shows "GET_dataset rt fs q st =
           (Ok200 \<lparr> data = map strip_search (query_seq rt q (arrays st1 a)),
                    total_items = length (query_seq rt q (arrays st1 a)),
                    filters = echo_filters q \<rparr>,
            snd (sort_step rt q (run_filters q (a, st1))))"
  using contents_query[of rt q "(a, st1)"]
  by (simp add: GET_dataset_def assms Let_def contents_def)

lemma GET_dataset_error:
  assumes "loadData fs st = (Inl e, st1)"
  shows "GET_dataset rt fs q st = (Error500 e, st1)"
  by (simp add: GET_dataset_def assms)

lemma run_filters_ignores_paging:
  "run_filters (q(''page'' := pg, ''per_page'' := pp)) s = run_filters q s"
  unfolding run_filters_def Let_def by simp

lemma sort_step_ignores_paging:
  "sort_step rt (q(''page'' := pg, ''per_page'' := pp)) s = sort_step rt q s"
  by (simp add: sort_step_def sort_by_param_def sort_order_param_def)

lemma echo_ignores_paging:
  "echo_filters (q(''page'' := pg, ''per_page'' := pp)) = echo_filters q"
  by (simp add: echo_filters_def sort_by_param_def sort_order_param_def)

lemma GET_dataset_ignores_paging:
  "GET_dataset rt fs (q(''page'' := pg, ''per_page'' := pp)) st = GET_dataset rt fs q st"
proof (cases "loadData fs st")
  case (Pair r st1)
  then show ?thesis
    by (cases r)
       (simp_all add: GET_dataset_def run_filters_ignores_paging sort_step_ignores_paging
          echo_ignores_paging del: fun_upd_apply)
qed

lemma loadData_initial:
  "loadData (local_file t rows) initial_module =
     (Inr 0, \<lparr> arrays = (\<lambda>_. [])(0 := cleanDataset rows), next_ref = Suc 0,
               CSV_FILE_PATH = Some LocalPath, cachedData = Some 0,
               lastFileModTime = Some t \<rparr>)"
  by (simp add: loadData_def resolve_path_def local_file_def initial_module_def new_array_def)

lemma cleanDataset_two_rows: "cleanDataset two_rows = [record_A, record_B]"
  by (simp add: two_rows_def record_A_def record_B_def cleanDataset_def row_eval record_eval)

lemma cond_filter_Nil: "cond_filter c p [] = []"
  by (simp add: cond_filter_def)

lemma cond_filter_never: "c \<Longrightarrow> (\<And>x. \<not> p x) \<Longrightarrow> cond_filter c p xs = []"
  by (simp add: cond_filter_def)

lemma cond_filter_skip: "\<not> c \<Longrightarrow> cond_filter c p xs = xs"
  by (simp add: cond_filter_def)

lemma compare_NaN: "js_ge a NaN = False" "js_le a NaN = False"
  by (simp_all add: js_ge_def js_le_def)

lemma filtered_unparsable:
  assumes "k \<in> set bound_params" and "q k = Some v" and "v \<noteq> []"
    and "parseFloat (Some v) = NaN"
  shows "filtered q xs = []"
proof -
  have nf: "\<not> falsy (q k)" using assms by (simp add: falsy_def)
  have pf: "parseFloat (q k) = NaN" using assms by simp
  have "k = ''min_protein'' \<or> k = ''max_protein'' \<or> k = ''min_carbs''
    \<or> k = ''max_carbs'' \<or> k = ''min_fat'' \<or> k = ''max_fat''
    \<or> k = ''min_calories'' \<or> k = ''max_calories''"
    using assms(1) by (simp add: bound_params_def)
  then consider "k = ''min_protein''" | "k = ''max_protein''" | "k = ''min_carbs''"
    | "k = ''max_carbs''" | "k = ''min_fat''" | "k = ''max_fat''"
    | "k = ''min_calories''" | "k = ''max_calories''"
    by (elim disjE) blast+
  then show ?thesis
  proof cases
    case 1 with nf pf show ?thesis
      unfolding filtered_def Let_def by (simp add: cond_filter_never compare_NaN cond_filter_Nil)
  next
    case 2 with nf pf show ?thesis
      unfolding filtered_def Let_def by (simp add: cond_filter_never compare_NaN cond_filter_Nil)
  next
    case 3 with nf pf show ?thesis
      unfolding filtered_def Let_def by (simp add: cond_filter_never compare_NaN cond_filter_Nil)
  next
    case 4 with nf pf show ?thesis
      unfolding filtered_def Let_def by (simp add: cond_filter_never compare_NaN cond_filter_Nil)
  next
    case 5 with nf pf show ?thesis
      unfolding filtered_def Let_def by (simp add: cond_filter_never compare_NaN cond_filter_Nil)
  next
    case 6 with nf pf show ?thesis
      unfolding filtered_def Let_def by (simp add: cond_filter_never compare_NaN cond_filter_Nil)
  next
    case 7 with nf pf show ?thesis
      unfolding filtered_def Let_def by (simp add: cond_filter_never compare_NaN cond_filter_Nil)
  next
    case 8 with nf pf show ?thesis
      unfolding filtered_def Let_def by (simp add: cond_filter_never compare_NaN cond_filter_Nil)
  qed
qed

lemma sorted_by_query_Nil: "sorted_by_query rt q [] = []"
  by (simp add: sorted_by_query_def split: option.splits)

lemma query_seq_unparsable:
  assumes "k \<in> set bound_params" and "q k = Some v" and "v \<noteq> []"
    and "parseFloat (Some v) = NaN"
  shows "query_seq rt q xs = []"
  using filtered_unparsable[of k q v xs] assms by (simp add: query_seq_def sorted_by_query_Nil)

lemma is_error_GET_dataset:
  "is_error (fst (GET_dataset rt fs q st)) = (\<exists>e. fst (loadData fs st) = Inl e)"
proof (cases "loadData fs st")
  case (Pair r st1)
  then show ?thesis
    by (cases r) (simp_all add: GET_dataset_ok GET_dataset_error is_error_def)
qed



lemma warm_module_eq:
  "warm_module t rows =
     \<lparr> arrays = (\<lambda>_. [])(0 := cleanDataset rows), next_ref = Suc 0,
       CSV_FILE_PATH = Some LocalPath, cachedData = Some 0, lastFileModTime = Some t \<rparr>"
  by (simp add: warm_module_def loadData_initial)

lemma loadData_warm_same_mtime:
  "loadData (local_file t rows') (warm_module t rows) = (Inr 0, warm_module t rows)"
  by (simp add: warm_module_eq loadData_def resolve_path_def local_file_def new_array_def)

lemma loadData_warm_new_mtime:
  "t' \<noteq> t \<Longrightarrow> loadData (local_file t' rows') (warm_module t rows) =
     (Inr (Suc 0), \<lparr> arrays = (\<lambda>_. [])(0 := cleanDataset rows, Suc 0 := cleanDataset rows'),
               next_ref = Suc (Suc 0), CSV_FILE_PATH = Some LocalPath,
               cachedData = Some (Suc 0), lastFileModTime = Some t' \<rparr>)"
  by (simp add: warm_module_eq loadData_def resolve_path_def local_file_def new_array_def)

lemmas query_eval = query_seq_def sorted_by_query_def sort_by_param_def sort_order_param_def
  cond_filter_def falsy_def lower_trim_def to_string_def sortFieldMap_def comparator_def
  js_sub_def js_gt_def or_zero_def num_truthy_def

lemma filtered_no_params: "filtered (\<lambda>k. None) xs = xs"
  unfolding filtered_def Let_def by (simp add: query_eval)

lemma filtered_per_page: "filtered [''per_page'' \<mapsto> v] xs = xs"
  unfolding filtered_def Let_def by (simp add: query_eval)

lemma query_seq_no_params: "query_seq rt (\<lambda>k. None) xs = xs"
  by (simp add: query_seq_def filtered_no_params sorted_by_query_def sort_by_param_def falsy_def)

lemma query_seq_per_page: "query_seq rt [''per_page'' \<mapsto> v] xs = xs"
  by (simp add: query_seq_def filtered_per_page sorted_by_query_def sort_by_param_def falsy_def)

lemma filtered_sort_only:
  "filtered [''sort_by'' \<mapsto> ''protein'', ''sort_order'' \<mapsto> ''desc''] xs = xs"
  unfolding filtered_def Let_def by (simp add: query_eval)

lemma run_filters_sort_only:
  "run_filters [''sort_by'' \<mapsto> ''protein'', ''sort_order'' \<mapsto> ''desc''] s = s"
  unfolding run_filters_def Let_def by (simp add: filter_step_def query_eval)

lemma sort_desc_protein:
  "js_sort (comparator rt ByProtein ''desc'') [record_A, record_B] = [record_B, record_A]"
  by (simp add: record_A_def record_B_def query_eval)

lemma sort_step_sort_only:
  "sort_step rt [''sort_by'' \<mapsto> ''protein'', ''sort_order'' \<mapsto> ''desc''] (a, st)
     = (a, st\<lparr> arrays := (arrays st)(a := js_sort (comparator rt ByProtein ''desc'') (arrays st a)) \<rparr>)"
  by (simp add: sort_step_def Let_def sort_by_param_def sort_order_param_def falsy_def
      to_string_def sortFieldMap_def toLowerCase_def lower_char_def)



section \<open>Claims about the dataset route\<close>

text \<open>
  C1, as the code has it. The dataset route has no pagination: \<open>page\<close> and \<open>per_page\<close>
  are not read, so any values for them, \<open>per_page=100000\<close> included, change neither the
  response nor the module state and cause no error; when the dataset loads, \<open>data\<close> is the
  whole filtered and sorted sequence and \<open>total_items\<close> is its length.
\<close>

theorem GET_dataset_returns_whole_sequence:
  "GET_dataset rt fs (q(''page'' := pg, ''per_page'' := pp)) st = GET_dataset rt fs q st
   \<and> (loadData fs st = (Inr a, st1) \<longrightarrow>
        fst (GET_dataset rt fs q st) =
          Ok200 \<lparr> data = map strip_search (query_seq rt q (arrays st1 a)),
                   total_items = length (query_seq rt q (arrays st1 a)),
                   filters = echo_filters q \<rparr>)"
  by (simp add: GET_dataset_ignores_paging GET_dataset_ok del: fun_upd_apply)

theorem GET_dataset_returns_whole_sequence_witness:
  "loadData (local_file 1 two_rows) initial_module = (Inr 0, warm_module 1 two_rows)
   \<and> fst (GET_dataset plain_runtime (local_file 1 two_rows)
            ((\<lambda>k. None)(''page'' := None, ''per_page'' := Some ''100000'')) initial_module) =
       Ok200 \<lparr> data = [strip_search record_A, strip_search record_B], total_items = 2,
                filters = echo_filters (\<lambda>k. None) \<rparr>"
proof -
  have l: "loadData (local_file 1 two_rows) initial_module = (Inr 0, warm_module 1 two_rows)"
    by (simp add: loadData_initial warm_module_eq)
  have a: "arrays (warm_module 1 two_rows) 0 = [record_A, record_B]"
    by (simp add: warm_module_eq cleanDataset_two_rows)
  show ?thesis
    using l a GET_dataset_returns_whole_sequence
      [of plain_runtime "local_file 1 two_rows" "\<lambda>k. None" None "Some ''100000''"
          initial_module 0 "warm_module 1 two_rows"]
    by (simp add: query_seq_no_params del: fun_upd_apply)
qed

text \<open>
  C1 as stated fails: with two records and \<open>per_page=1\<close> the route returns both, where
  the page of the specification holds the first one only.
\<close>

theorem GET_dataset_pagination_counterexample:
  "response_data (fst (GET_dataset plain_runtime (local_file 1 two_rows)
       [''per_page'' \<mapsto> ''1''] initial_module))
     = [strip_search record_A, strip_search record_B]
   \<and> spec_slice (spec_page None) (spec_per_page (Some 1))
       (map strip_search (query_seq plain_runtime [''per_page'' \<mapsto> ''1'']
          (cleanDataset two_rows)))
     = [strip_search record_A]
   \<and> response_data (fst (GET_dataset plain_runtime (local_file 1 two_rows)
       [''per_page'' \<mapsto> ''1''] initial_module))
     \<noteq> spec_slice (spec_page None) (spec_per_page (Some 1))
         (map strip_search (query_seq plain_runtime [''per_page'' \<mapsto> ''1'']
            (cleanDataset two_rows)))"
  by (simp add: GET_dataset_ok[OF loadData_initial] response_data_def query_seq_per_page
      cleanDataset_two_rows spec_slice_def spec_page_def spec_per_page_def)

lemma filter_step_skip: "filter_step False p s = s"
  by (simp add: filter_step_def)

lemma bound_params_cases:
  assumes "k \<in> set bound_params"
  obtains "k = ''min_protein''" | "k = ''max_protein''" | "k = ''min_carbs''"
    | "k = ''max_carbs''" | "k = ''min_fat''" | "k = ''max_fat''"
    | "k = ''min_calories''" | "k = ''max_calories''"
proof -
  have "k = ''min_protein'' \<or> k = ''max_protein'' \<or> k = ''min_carbs''
    \<or> k = ''max_carbs'' \<or> k = ''min_fat'' \<or> k = ''max_fat''
    \<or> k = ''min_calories'' \<or> k = ''max_calories''"
    using assms by (simp add: bound_params_def)
  then show ?thesis using that by (elim disjE) blast+
qed

lemma run_filters_empty_bound:
  assumes "k \<in> set bound_params" and "q k = Some []"
  shows "run_filters (q(k := None)) s = run_filters q s"
  using assms(1)
proof (cases rule: bound_params_cases)
  case 1 with assms(2) show ?thesis
    unfolding run_filters_def Let_def by (simp add: falsy_def filter_step_skip)
next
  case 2 with assms(2) show ?thesis
    unfolding run_filters_def Let_def by (simp add: falsy_def filter_step_skip)
next
  case 3 with assms(2) show ?thesis
    unfolding run_filters_def Let_def by (simp add: falsy_def filter_step_skip)
next
  case 4 with assms(2) show ?thesis
    unfolding run_filters_def Let_def by (simp add: falsy_def filter_step_skip)
next
  case 5 with assms(2) show ?thesis
    unfolding run_filters_def Let_def by (simp add: falsy_def filter_step_skip)
next
  case 6 with assms(2) show ?thesis
    unfolding run_filters_def Let_def by (simp add: falsy_def filter_step_skip)
next
  case 7 with assms(2) show ?thesis
    unfolding run_filters_def Let_def by (simp add: falsy_def filter_step_skip)
next
  case 8 with assms(2) show ?thesis
    unfolding run_filters_def Let_def by (simp add: falsy_def filter_step_skip)
qed

lemma sort_step_ignores_bound:
  assumes "k \<in> set bound_params"
  shows "sort_step rt (q(k := v)) s = sort_step rt q s"
  using assms(1)
  by (cases rule: bound_params_cases)
     (simp_all add: sort_step_def sort_by_param_def sort_order_param_def)

lemma echo_filters_empty_bound:
  assumes "k \<in> set bound_params" and "q k = Some []"
  shows "echo_filters (q(k := None)) = echo_filters q"
  using assms(1)
  by (cases rule: bound_params_cases)
     (use assms(2) in \<open>simp_all add: echo_filters_def sort_by_param_def sort_order_param_def
        number_or_null_def falsy_def\<close>)

lemma GET_dataset_empty_bound:
  assumes "k \<in> set bound_params" and "q k = Some []"
  shows "GET_dataset rt fs (q(k := None)) st = GET_dataset rt fs q st"
proof -
  have r: "\<And>s. run_filters (q(k := None)) s = run_filters q s"
    using assms by (rule run_filters_empty_bound)
  have e: "echo_filters (q(k := None)) = echo_filters q"
    using assms by (rule echo_filters_empty_bound)
  have o: "\<And>s. sort_step rt (q(k := None)) s = sort_step rt q s"
    using assms(1) by (rule sort_step_ignores_bound)
  show ?thesis
  proof (cases "loadData fs st")
    case (Pair res st1)
    then show ?thesis
      by (cases res) (simp_all add: GET_dataset_def r e o del: fun_upd_apply)
  qed
qed

text \<open>
  C2, as the code has it. A range bound whose value does not parse is dropped only when
  the value is the empty string: the request is then the request without the bound. A
  bound with any other unparsable value is compared as \<open>NaN\<close>, which no record passes:
  when the dataset loads, the response is the empty page with \<open>total_items = 0\<close>. In
  both cases the request fails exactly when the same request without the bound fails.
\<close>

theorem unparsable_bound_gives_empty_result:
  assumes "k \<in> set bound_params" and "q k = Some v" and "parseFloat (Some v) = NaN"
  shows "(v = [] \<longrightarrow> GET_dataset rt fs q st = GET_dataset rt fs (q(k := None)) st)
         \<and> (v \<noteq> [] \<and> loadData fs st = (Inr a, st1) \<longrightarrow>
            fst (GET_dataset rt fs q st) =
              Ok200 \<lparr> data = [], total_items = 0, filters = echo_filters q \<rparr>)
         \<and> is_error (fst (GET_dataset rt fs q st))
             = is_error (fst (GET_dataset rt fs (q(k := None)) st))"
proof (intro conjI impI)
  assume "v = []"
  then show "GET_dataset rt fs q st = GET_dataset rt fs (q(k := None)) st"
    using GET_dataset_empty_bound[of k q rt fs st] assms by simp
next
  assume h: "v \<noteq> [] \<and> loadData fs st = (Inr a, st1)"
  then have "query_seq rt q (arrays st1 a) = []"
    using query_seq_unparsable[of k q v rt "arrays st1 a"] assms by simp
  then show "fst (GET_dataset rt fs q st) =
               Ok200 \<lparr> data = [], total_items = 0, filters = echo_filters q \<rparr>"
    using h by (simp add: GET_dataset_ok)
next
  show "is_error (fst (GET_dataset rt fs q st))
          = is_error (fst (GET_dataset rt fs (q(k := None)) st))"
    by (simp add: is_error_GET_dataset)
qed

theorem unparsable_bound_gives_empty_result_witness:
  "''min_protein'' \<in> set bound_params
   \<and> parseFloat (Some ''abc'') = NaN
   \<and> loadData (local_file 1 two_rows) initial_module = (Inr 0, warm_module 1 two_rows)
   \<and> fst (GET_dataset plain_runtime (local_file 1 two_rows) [''min_protein'' \<mapsto> ''abc'']
            initial_module)
       = Ok200 \<lparr> data = [], total_items = 0,
                  filters = echo_filters [''min_protein'' \<mapsto> ''abc''] \<rparr>"
proof -
  have k: "''min_protein'' \<in> set bound_params" by (simp add: bound_params_def)
  have p: "parseFloat (Some ''abc'') = NaN" by (simp add: parseFloat_samples)
  have l: "loadData (local_file 1 two_rows) initial_module = (Inr 0, warm_module 1 two_rows)"
    by (simp add: loadData_initial warm_module_eq)
  have q: "[''min_protein'' \<mapsto> ''abc''] ''min_protein'' = Some ''abc''" by simp
  have v: "''abc'' \<noteq> []" by simp
  show ?thesis
    using k p l q v unparsable_bound_gives_empty_result
      [where k = "''min_protein''" and q = "[''min_protein'' \<mapsto> ''abc'']" and v = "''abc''"
         and fs = "local_file 1 two_rows" and st = initial_module and a = 0
         and ?st1.0 = "warm_module 1 two_rows" and rt = plain_runtime]
    by blast
qed

text \<open>
  C2 as stated fails: with \<open>min_protein=abc\<close> the route returns no record, and without
  the bound it returns both.
\<close>

theorem unparsable_bound_counterexample:
  "response_data (fst (GET_dataset plain_runtime (local_file 1 two_rows)
       [''min_protein'' \<mapsto> ''abc''] initial_module)) = []
   \<and> response_data (fst (GET_dataset plain_runtime (local_file 1 two_rows)
       (\<lambda>k. None) initial_module)) = [strip_search record_A, strip_search record_B]"
proof -
  have "query_seq plain_runtime [''min_protein'' \<mapsto> ''abc''] (cleanDataset two_rows) = []"
    by (rule query_seq_unparsable[of "''min_protein''" _ "''abc''"])
       (simp_all add: bound_params_def parseFloat_samples)
  then show ?thesis
    by (simp add: GET_dataset_ok[OF loadData_initial] response_data_def query_seq_no_params
        cleanDataset_two_rows)
qed



lemma loadData_cached:
  assumes "resolve_path fs st = Inr p" and "fs p = Some f"
    and "cachedData st = Some c" and "lastFileModTime st = Some (mtimeMs f)"
  shows "loadData fs st = (Inr c, st\<lparr> CSV_FILE_PATH := Some p \<rparr>)"
  using assms by (simp add: loadData_def new_array_def)

lemma loadData_rebuilt:
  assumes "resolve_path fs st = Inr p" and "fs p = Some f"
    and "cachedData st = None \<or> lastFileModTime st \<noteq> Some (mtimeMs f)"
  shows "loadData fs st =
           (Inr (next_ref st),
            st\<lparr> CSV_FILE_PATH := Some p,
                arrays := (arrays st)(next_ref st := cleanDataset (parsed f)),
                next_ref := Suc (next_ref st),
                cachedData := Some (next_ref st),
                lastFileModTime := Some (mtimeMs f) \<rparr>)"
  using assms by (auto simp: loadData_def new_array_def Let_def split: option.splits)

text \<open>
  C3, as the code has it. The validity check of \<open>loadData\<close> compares the modification
  time only. With a cached dataset and an unchanged modification time the cached dataset is
  returned and kept, whatever the file holds; otherwise the dataset is recomputed from the
  current content, returned, and cached with the new modification time.
\<close>

theorem loadData_keyed_on_mtime:
  assumes "resolve_path fs st = Inr p" and "fs p = Some f"
  shows "(cachedData st = Some c \<and> lastFileModTime st = Some (mtimeMs f) \<longrightarrow>
            loaded fs st = Some (arrays st c)
            \<and> cached_dataset (snd (loadData fs st)) = cached_dataset st
            \<and> lastFileModTime (snd (loadData fs st)) = lastFileModTime st)
         \<and> (cachedData st = None \<or> lastFileModTime st \<noteq> Some (mtimeMs f) \<longrightarrow>
            loaded fs st = Some (cleanDataset (parsed f))
            \<and> cached_dataset (snd (loadData fs st)) = Some (cleanDataset (parsed f))
            \<and> lastFileModTime (snd (loadData fs st)) = Some (mtimeMs f))"
proof (intro conjI impI)
  assume h: "cachedData st = Some c \<and> lastFileModTime st = Some (mtimeMs f)"
  then have l: "loadData fs st = (Inr c, st\<lparr> CSV_FILE_PATH := Some p \<rparr>)"
    using assms by (simp add: loadData_cached)
  show "loaded fs st = Some (arrays st c)" by (simp add: loaded_def l)
  show "cached_dataset (snd (loadData fs st)) = cached_dataset st"
    by (simp add: l cached_dataset_def)
  show "lastFileModTime (snd (loadData fs st)) = lastFileModTime st" by (simp add: l)
next
  assume h: "cachedData st = None \<or> lastFileModTime st \<noteq> Some (mtimeMs f)"
  note l = loadData_rebuilt[OF assms h]
  show "loaded fs st = Some (cleanDataset (parsed f))" by (simp add: loaded_def l)
  show "cached_dataset (snd (loadData fs st)) = Some (cleanDataset (parsed f))"
    by (simp add: l cached_dataset_def)
  show "lastFileModTime (snd (loadData fs st)) = Some (mtimeMs f)" by (simp add: l)
qed

theorem loadData_keyed_on_mtime_witness:
  "resolve_path (local_file 1 [csv_row ''B'' ''keto'' ''thai'' ''20'' ''20'' ''20''])
       (warm_module 1 two_rows) = Inr LocalPath
   \<and> local_file 1 [csv_row ''B'' ''keto'' ''thai'' ''20'' ''20'' ''20''] LocalPath
       = Some \<lparr> mtimeMs = 1, parsed = [csv_row ''B'' ''keto'' ''thai'' ''20'' ''20'' ''20''] \<rparr>
   \<and> cachedData (warm_module 1 two_rows) = Some 0
   \<and> lastFileModTime (warm_module 1 two_rows) = Some 1
   \<and> loaded (local_file 1 [csv_row ''B'' ''keto'' ''thai'' ''20'' ''20'' ''20''])
       (warm_module 1 two_rows) = Some [record_A, record_B]
   \<and> resolve_path (local_file 1 two_rows) initial_module = Inr LocalPath
   \<and> cachedData initial_module = None
   \<and> loaded (local_file 1 two_rows) initial_module = Some [record_A, record_B]"
proof -
  have r: "resolve_path (local_file 1 [csv_row ''B'' ''keto'' ''thai'' ''20'' ''20'' ''20''])
       (warm_module 1 two_rows) = Inr LocalPath"
    by (simp add: resolve_path_def warm_module_eq)
  have f: "local_file 1 [csv_row ''B'' ''keto'' ''thai'' ''20'' ''20'' ''20''] LocalPath
       = Some \<lparr> mtimeMs = 1, parsed = [csv_row ''B'' ''keto'' ''thai'' ''20'' ''20'' ''20''] \<rparr>"
    by (simp add: local_file_def)
  have c: "cachedData (warm_module 1 two_rows) = Some 0"
    and m: "lastFileModTime (warm_module 1 two_rows) = Some 1"
    and a: "arrays (warm_module 1 two_rows) 0 = [record_A, record_B]"
    by (simp_all add: warm_module_eq cleanDataset_two_rows)
  have r': "resolve_path (local_file 1 two_rows) initial_module = Inr LocalPath"
    by (simp add: resolve_path_def initial_module_def local_file_def)
  have f': "local_file 1 two_rows LocalPath = Some \<lparr> mtimeMs = 1, parsed = two_rows \<rparr>"
    by (simp add: local_file_def)
  have n: "cachedData initial_module = None"
    by (simp add: initial_module_def)
  have "loaded (local_file 1 [csv_row ''B'' ''keto'' ''thai'' ''20'' ''20'' ''20''])
       (warm_module 1 two_rows) = Some [record_A, record_B]"
    using c m a loadData_keyed_on_mtime[OF r f, of 0] by simp
  moreover have "loaded (local_file 1 two_rows) initial_module = Some [record_A, record_B]"
    using n loadData_keyed_on_mtime[OF r' f', of 0] by (simp add: cleanDataset_two_rows)
  ultimately show ?thesis using r f c m r' n by blast
qed

text \<open>
  C3 as stated fails in both directions. After the cache was filled from a file with
  modification time 1, a file with other content and the same modification time yields
  the old dataset, which is not the cleaned new content; and the same content with
  modification time 2 is cleaned again into a new array.
\<close>

theorem loadData_fingerprint_counterexample:
  "loaded (local_file 1 two_rows) initial_module = Some [record_A, record_B]
   \<and> loaded (local_file 1 [csv_row ''B'' ''keto'' ''thai'' ''20'' ''20'' ''20''])
       (warm_module 1 two_rows) = Some [record_A, record_B]
   \<and> cleanDataset [csv_row ''B'' ''keto'' ''thai'' ''20'' ''20'' ''20''] = [record_B]
   \<and> [record_A, record_B] \<noteq> [record_B]
   \<and> fst (loadData (local_file 1 two_rows) (warm_module 1 two_rows)) = Inr 0
   \<and> fst (loadData (local_file 2 two_rows) (warm_module 1 two_rows)) = Inr 1"
proof -
  have 1: "loaded (local_file 1 two_rows) initial_module = Some [record_A, record_B]"
    by (simp add: loaded_def loadData_initial cleanDataset_two_rows)
  have 2: "loaded (local_file 1 [csv_row ''B'' ''keto'' ''thai'' ''20'' ''20'' ''20''])
       (warm_module 1 two_rows) = Some [record_A, record_B]"
    unfolding loaded_def loadData_warm_same_mtime
    by (simp add: warm_module_eq cleanDataset_two_rows)
  have 3: "cleanDataset [csv_row ''B'' ''keto'' ''thai'' ''20'' ''20'' ''20''] = [record_B]"
    by (simp add: cleanDataset_def row_eval record_eval record_B_def)
  have 4: "[record_A, record_B] \<noteq> [record_B]" by simp
  have 5: "fst (loadData (local_file 1 two_rows) (warm_module 1 two_rows)) = Inr 0"
    by (simp add: loadData_warm_same_mtime)
  have 6: "fst (loadData (local_file 2 two_rows) (warm_module 1 two_rows)) = Inr 1"
    by (simp add: loadData_warm_new_mtime)
  show ?thesis using 1 2 3 4 5 6 by blast
qed

text \<open>
  C4 fails on the code. A request that sorts and applies no filter sorts the array the
  cache variable refers to: after \<open>sort_by=protein&sort_order=desc\<close> the cached dataset is
  in the reverse order, and a later request without any parameter returns it so.
\<close>

theorem GET_dataset_sort_reorders_cache:
  "cached_dataset (warm_module 1 two_rows) = Some [record_A, record_B]
   \<and> cached_dataset (snd (GET_dataset plain_runtime (local_file 1 two_rows)
        [''sort_by'' \<mapsto> ''protein'', ''sort_order'' \<mapsto> ''desc''] (warm_module 1 two_rows)))
       = Some [record_B, record_A]
   \<and> response_data (fst (GET_dataset plain_runtime (local_file 1 two_rows) (\<lambda>k. None)
        (snd (GET_dataset plain_runtime (local_file 1 two_rows)
           [''sort_by'' \<mapsto> ''protein'', ''sort_order'' \<mapsto> ''desc''] (warm_module 1 two_rows)))))
       = [strip_search record_B, strip_search record_A]"
proof -
  let ?q = "[''sort_by'' \<mapsto> ''protein'', ''sort_order'' \<mapsto> ''desc'']"
  let ?st = "\<lparr> arrays = (\<lambda>_. [])(0 := [record_B, record_A]), next_ref = Suc 0,
       CSV_FILE_PATH = Some LocalPath, cachedData = Some 0, lastFileModTime = Some (1::real) \<rparr>"
  have s: "snd (GET_dataset plain_runtime (local_file 1 two_rows) ?q (warm_module 1 two_rows)) = ?st"
    unfolding GET_dataset_ok[OF loadData_warm_same_mtime] run_filters_sort_only
      sort_step_sort_only
    by (simp add: warm_module_eq cleanDataset_two_rows sort_desc_protein del: js_sort.simps)
  have l: "loadData (local_file 1 two_rows) ?st = (Inr 0, ?st)"
    by (simp add: loadData_def resolve_path_def local_file_def new_array_def)
  show ?thesis
    unfolding s
    by (simp add: GET_dataset_ok[OF l] cached_dataset_def warm_module_eq cleanDataset_two_rows
        query_seq_no_params response_data_def)
qed


section \<open>Properties of the statistics route\<close>



lemma loadAndCleanData_Nil: "loadAndCleanData [] = []"
  by (simp add: loadAndCleanData_def)

lemma average_of_Nil: "average_of field [] = NaN"
  by (simp add: average_of_def sum_from_zero_def)

lemma calculateStatistics_Nil: "calculateStatistics [] = empty_snapshot"
  by (simp add: calculateStatistics_def empty_snapshot_def average_of_Nil Math_max_def
      sort_strings_def averages_by_group_def)





lemma GET_statistics_first:
  "GET_statistics (local_file t rows) now initial_stats =
     (Ok200 (calculateStatistics (loadAndCleanData rows)),
      \<lparr> cachedStats = Some (calculateStatistics (loadAndCleanData rows)),
        lastStatsCalcTime = Some now \<rparr>)"
  by (simp add: GET_statistics_def stats_fresh_def initial_stats_def local_file_def Let_def)







section \<open>Claims about the statistics route\<close>




text \<open>
  C6 fails on the code. For the empty dataset no branch guards the division by the
  length or the maximum of nothing: the four overall averages are \<open>0 / 0 = NaN\<close> and the
  four overall maxima are \<open>Math.max() = -Infinity\<close>, and the handler returns this snapshot
  with status 200. The counts and lists are empty and nothing throws.
\<close>

theorem calculateStatistics_empty_dataset:
  "calculateStatistics (loadAndCleanData []) = empty_snapshot
   \<and> avg_protein (overall_stats (calculateStatistics (loadAndCleanData []))) = NaN
   \<and> avg_carbs (overall_stats (calculateStatistics (loadAndCleanData []))) = NaN
   \<and> avg_fat (overall_stats (calculateStatistics (loadAndCleanData []))) = NaN
   \<and> avg_calories (overall_stats (calculateStatistics (loadAndCleanData []))) = NaN
   \<and> max_protein (overall_stats (calculateStatistics (loadAndCleanData []))) = NegInf
   \<and> max_carbs (overall_stats (calculateStatistics (loadAndCleanData []))) = NegInf
   \<and> max_fat (overall_stats (calculateStatistics (loadAndCleanData []))) = NegInf
   \<and> max_calories (overall_stats (calculateStatistics (loadAndCleanData []))) = NegInf
   \<and> fst (GET_statistics (local_file 1 []) 1000 initial_stats) = Ok200 empty_snapshot"
  by (simp add: loadAndCleanData_Nil calculateStatistics_Nil GET_statistics_first
      empty_snapshot_def)


end
